theory Spec2Isabelle
  imports Main
begin

section \<open>The jc command line module (jc/cli.py)\<close>

text \<open>
  A shallow embedding of \<^verbatim>\<open>jc/cli.py\<close>. Python strings are \<open>string\<close> (a list of
  characters, each standing for one code point below 256), Python integers are \<open>int\<close>,
  a raised exception is the left summand of a result \<open>py_error + 'a\<close>
  (\<^verbatim>\<open>sys.exit(n)\<close> raises \<open>SystemExit n\<close>; \<open>ParserError\<close> stands for what a converter
  raises). Everything the module reads from outside itself (the converter modules it
  imports, the host that starts the user's command, the terminal, the environment) is
  a field of the record \<open>world\<close> that the functions take as a parameter.
\<close>

subsection \<open>Exceptions\<close>

datatype py_error =
    FileNotFoundError
  | IndexError
  | KeyError
  | TypeError
  | AttributeError
  | ModuleNotFoundError
  | UnboundLocalError
  | PermissionError
  | UnicodeDecodeError
  | ParserError string
  | SystemExit int

text \<open>Sequencing: the second computation runs on the value of the first, unless the
  first raised.\<close>

definition and_then :: "py_error + 'a \<Rightarrow> ('a \<Rightarrow> py_error + 'b) \<Rightarrow> py_error + 'b" where
  "and_then r f = (case r of Inl e \<Rightarrow> Inl e | Inr v \<Rightarrow> f v)"

subsection \<open>Exit codes\<close>

definition JC_ERROR_EXIT :: int where
  "JC_ERROR_EXIT = 100"

text \<open>
  \<^verbatim>\<open>
  def combined_exit_code(program_exit=0, jc_exit=0):
      exit_code = program_exit + jc_exit
      if exit_code > 255:
          exit_code = 255
      return exit_code
  \<close>
\<close>

definition combined_exit_code :: "int \<Rightarrow> int \<Rightarrow> int" where
  "combined_exit_code program_exit jc_exit =
     (let exit_code = program_exit + jc_exit
      in if exit_code > 255 then 255 else exit_code)"

subsection \<open>Strings\<close>

text \<open>\<^verbatim>\<open>s.startswith(p)\<close>.\<close>

definition startswith :: "string \<Rightarrow> string \<Rightarrow> bool" where
  "startswith s p = (take (length p) s = p)"

text \<open>\<^verbatim>\<open>sep.join(xs)\<close>.\<close>

fun join :: "string \<Rightarrow> string list \<Rightarrow> string" where
  "join sep [] = []"
| "join sep [x] = x"
| "join sep (x # y # ys) = x @ sep @ join sep (y # ys)"

text \<open>\<^verbatim>\<open>s.split(',')\<close>, for a separator of one character: the empty string gives
  one empty token, and two adjacent separators an empty token between them.\<close>

fun split_sep :: "char \<Rightarrow> string \<Rightarrow> string list" where
  "split_sep sep [] = [[]]"
| "split_sep sep (c # cs) =
     (if c = sep then [] # split_sep sep cs
      else (case split_sep sep cs of
              w # ws \<Rightarrow> (c # w) # ws
            | [] \<Rightarrow> [[c]]))"

text \<open>\<^verbatim>\<open>str.isspace\<close> on one character, for the code points below 256: tab to carriage
  return, the four separators \<open>0x1c\<close> to \<open>0x1f\<close>, the space, \<open>0x85\<close> and \<open>0xa0\<close>.\<close>

definition isspace :: "char \<Rightarrow> bool" where
  "isspace c = (of_char c \<in> {9, 10, 11, 12, 13, 28, 29, 30, 31, 32, 133, 160 :: nat})"

text \<open>\<^verbatim>\<open>s.split()\<close> with no separator: the maximal runs of characters that are not
  white space; \<open>w\<close> is the run read so far.\<close>

fun split_run :: "string \<Rightarrow> string \<Rightarrow> string list" where
  "split_run w [] = (if w = [] then [] else [w])"
| "split_run w (c # cs) =
     (if isspace c then (if w = [] then split_run [] cs else w # split_run [] cs)
      else split_run (w @ [c]) cs)"

definition split_ws :: "string \<Rightarrow> string list" where
  "split_ws s = split_run [] s"

text \<open>\<^verbatim>\<open>s.replace(old, new)\<close>: every occurrence of \<open>old\<close>, from the left, without
  overlaps. The module only calls it with a non-empty \<open>old\<close>; for an empty one this
  function returns \<open>s\<close>.\<close>

function str_replace :: "string \<Rightarrow> string \<Rightarrow> string \<Rightarrow> string" where
  "str_replace old new [] = []"
| "str_replace old new (c # cs) =
     (if old \<noteq> [] \<and> take (length old) (c # cs) = old
      then new @ str_replace old new (drop (length old) (c # cs))
      else c # str_replace old new cs)"
  by pat_completeness auto
termination
  by (relation "measure (\<lambda>(old, new, s). length s)") auto

text \<open>
  \<^verbatim>\<open>shlex.quote\<close> of the standard library:
  \<^verbatim>\<open>
  _find_unsafe = re.compile(r'[^\w@%+=:,./-]', re.ASCII).search
  def quote(s):
      if not s:
          return "''"
      if _find_unsafe(s) is None:
          return s
      return "'" + s.replace("'", "'\"'\"'") + "'"
  \<close>
  \<open>CHR 0x27\<close> is the single quote and \<open>CHR 0x22\<close> the double quote.
\<close>

definition shlex_safe :: "char \<Rightarrow> bool" where
  "shlex_safe c =
     (let n = (of_char c :: nat)
      in (48 \<le> n \<and> n \<le> 57) \<or> (65 \<le> n \<and> n \<le> 90) \<or> (97 \<le> n \<and> n \<le> 122) \<or>
         c \<in> set ''_@%+=:,./-'')"

definition shlex_quote :: "string \<Rightarrow> string" where
  "shlex_quote s =
     (if s = [] then [CHR 0x27, CHR 0x27]
      else if list_all shlex_safe s then s
      else [CHR 0x27] @
           str_replace [CHR 0x27] [CHR 0x27, CHR 0x22, CHR 0x27, CHR 0x22, CHR 0x27] s @
           [CHR 0x27])"

subsection \<open>Running the user's command\<close>

text \<open>
  \<^verbatim>\<open>subprocess.Popen(command, stdout=PIPE, stderr=PIPE, universal_newlines=True)\<close>
  followed by \<^verbatim>\<open>communicate()\<close>, of the standard library. The machine the run is on
  is a \<open>host\<close>:
  \<^item> \<open>binaries\<close> says what the name in \<^verbatim>\<open>command[0]\<close> resolves to: nothing, a file
    the system cannot execute (with the error the failed \<^verbatim>\<open>exec\<close> gives,
    \<open>PermissionError\<close> for a file without the execute bit), or a program, which is a
    function from the whole token list to the bytes the child writes to stdout and to
    stderr and its return code (\<open>- n\<close> for a child killed by signal \<open>n\<close>);
  \<^item> \<open>locale_decode\<close> is the decoding of bytes in the encoding of the locale; \<open>None\<close>
    is a \<open>UnicodeDecodeError\<close>.

  \<open>Popen\<close> runs no shell. It raises \<open>IndexError\<close> for an empty list,
  \<open>FileNotFoundError\<close> for a name that resolves to nothing and the error of the
  \<^verbatim>\<open>exec\<close> for a file that cannot be executed. In text mode \<^verbatim>\<open>communicate()\<close> turns each
  captured stream into text with
  \<^verbatim>\<open>data.decode(encoding, errors).replace("\r\n", "\n").replace("\r", "\n")\<close>,
  stdout first.
\<close>

type_synonym program = "string list \<Rightarrow> string \<times> string \<times> int"

datatype binary = CannotStart py_error | Executable program

record host =
  binaries :: "string \<rightharpoonup> binary"
  locale_decode :: "string \<Rightarrow> string option"

definition translate_newlines :: "host \<Rightarrow> string \<Rightarrow> py_error + string" where
  "translate_newlines h data =
     (case locale_decode h data of
        None \<Rightarrow> Inl UnicodeDecodeError
      | Some s \<Rightarrow> Inr (str_replace [CHR 0x0D] [CHR 0x0A]
                        (str_replace [CHR 0x0D, CHR 0x0A] [CHR 0x0A] s)))"

definition Popen_communicate ::
  "host \<Rightarrow> string list \<Rightarrow> py_error + (string \<times> string \<times> int)" where
  "Popen_communicate h command =
     (case command of
        [] \<Rightarrow> Inl IndexError
      | exe # _ \<Rightarrow>
          (case binaries h exe of
             None \<Rightarrow> Inl FileNotFoundError
           | Some (CannotStart e) \<Rightarrow> Inl e
           | Some (Executable prog) \<Rightarrow>
               (case prog command of
                  (out_bytes, err_bytes, returncode) \<Rightarrow>
                    and_then (translate_newlines h out_bytes) (\<lambda>stdout.
                    and_then (translate_newlines h err_bytes) (\<lambda>stderr.
                      Inr (stdout, stderr, returncode))))))"

text \<open>
  \<^verbatim>\<open>
  def run_user_command(command):
      proc = subprocess.Popen(command, ...)
      stdout, stderr = proc.communicate()
      return (stdout or '\n', stderr, proc.returncode)
  \<close>
  There is no \<^verbatim>\<open>try\<close> around \<open>Popen\<close> and \<^verbatim>\<open>communicate\<close>: what they raise leaves
  the function.
\<close>

definition run_user_command ::
  "host \<Rightarrow> string list \<Rightarrow> py_error + (string \<times> string \<times> int)" where
  "run_user_command h command =
     (case Popen_communicate h command of
        Inl e \<Rightarrow> Inl e
      | Inr (stdout, stderr, returncode) \<Rightarrow>
          Inr (if stdout = [] then [CHR 0x0A] else stdout, stderr, returncode))"

text \<open>
  Small hosts for the examples, all with a locale in which the bytes below 128 decode
  to themselves and every other byte is an error: one that has only \<^verbatim>\<open>ls\<close> (and no
  \<^verbatim>\<open>dig\<close>); one whose \<^verbatim>\<open>false\<close> writes nothing and exits with 1; one whose
  \<^verbatim>\<open>dig\<close> fails with a message that ends in a carriage return and a line feed; one
  whose \<^verbatim>\<open>dig\<close> is a file without the execute bit; one whose \<^verbatim>\<open>dig\<close> writes the
  byte \<open>0xFF\<close>.
\<close>

definition ascii_decode :: "string \<Rightarrow> string option" where
  "ascii_decode data =
     (if list_all (\<lambda>c. (of_char c :: nat) < 128) data then Some data else None)"

definition ls_only :: host where
  "ls_only =
     \<lparr>binaries = [''ls'' \<mapsto> Executable (\<lambda>_. (''cli.py'', [], 0))],
      locale_decode = ascii_decode\<rparr>"

definition quiet_false :: host where
  "quiet_false =
     \<lparr>binaries = [''false'' \<mapsto> Executable (\<lambda>_. ([], [], 1))],
      locale_decode = ascii_decode\<rparr>"

definition failing_dig :: host where
  "failing_dig =
     \<lparr>binaries =
        [''dig'' \<mapsto> Executable (\<lambda>_. ([], ''dig: no servers could be reached'' @
                                          [CHR 0x0D, CHR 0x0A], 9))],
      locale_decode = ascii_decode\<rparr>"

definition locked_dig :: host where
  "locked_dig =
     \<lparr>binaries = [''dig'' \<mapsto> CannotStart PermissionError],
      locale_decode = ascii_decode\<rparr>"

definition binary_dig :: host where
  "binary_dig =
     \<lparr>binaries = [''dig'' \<mapsto> Executable (\<lambda>_. ([CHR 0xFF], [], 0))],
      locale_decode = ascii_decode\<rparr>"

subsection \<open>Colours\<close>

text \<open>
  The table \<^verbatim>\<open>PYGMENT_COLOR\<close> exists when pygments is installed; it has the old colour
  names when the version of pygments starts with \<^verbatim>\<open>2.3.\<close> (\<open>legacy\<close>), the new ones
  otherwise. The keys are the same in both.
\<close>

definition PYGMENT_COLOR :: "bool \<Rightarrow> (string \<times> string) list" where
  "PYGMENT_COLOR legacy =
     (if legacy then
        [(''black'', ''#ansiblack''),
         (''red'', ''#ansidarkred''),
         (''green'', ''#ansidarkgreen''),
         (''yellow'', ''#ansibrown''),
         (''blue'', ''#ansidarkblue''),
         (''magenta'', ''#ansipurple''),
         (''cyan'', ''#ansiteal''),
         (''gray'', ''#ansilightgray''),
         (''brightblack'', ''#ansidarkgray''),
         (''brightred'', ''#ansired''),
         (''brightgreen'', ''#ansigreen''),
         (''brightyellow'', ''#ansiyellow''),
         (''brightblue'', ''#ansiblue''),
         (''brightmagenta'', ''#ansifuchsia''),
         (''brightcyan'', ''#ansiturquoise''),
         (''white'', ''#ansiwhite'')]
      else
        [(''black'', ''ansiblack''),
         (''red'', ''ansired''),
         (''green'', ''ansigreen''),
         (''yellow'', ''ansiyellow''),
         (''blue'', ''ansiblue''),
         (''magenta'', ''ansimagenta''),
         (''cyan'', ''ansicyan''),
         (''gray'', ''ansigray''),
         (''brightblack'', ''ansibrightblack''),
         (''brightred'', ''ansibrightred''),
         (''brightgreen'', ''ansibrightgreen''),
         (''brightyellow'', ''ansibrightyellow''),
         (''brightblue'', ''ansibrightblue''),
         (''brightmagenta'', ''ansibrightmagenta''),
         (''brightcyan'', ''ansibrightcyan''),
         (''white'', ''ansiwhite'')])"

text \<open>\<^verbatim>\<open>PYGMENT_COLOR[k]\<close> and \<^verbatim>\<open>color_list[i]\<close>: a missing key and an index out of
  range raise.\<close>

definition color_item :: "bool \<Rightarrow> string \<Rightarrow> py_error + string" where
  "color_item legacy k =
     (case map_of (PYGMENT_COLOR legacy) k of None \<Rightarrow> Inl KeyError | Some v \<Rightarrow> Inr v)"

definition list_item :: "'a list \<Rightarrow> nat \<Rightarrow> py_error + 'a" where
  "list_item xs i = (if i < length xs then Inr (xs ! i) else Inl IndexError)"

text \<open>One slot of the returned dictionary:
  \<^verbatim>\<open>PYGMENT_COLOR[color_list[i]] if color_list[i] != 'default' else PYGMENT_COLOR[fallback]\<close>.\<close>

definition slot_color :: "bool \<Rightarrow> string list \<Rightarrow> nat \<Rightarrow> string \<Rightarrow> py_error + string" where
  "slot_color legacy color_list i fallback =
     (case list_item color_list i of
        Inl e \<Rightarrow> Inl e
      | Inr c \<Rightarrow> if c \<noteq> ''default'' then color_item legacy c else color_item legacy fallback)"

text \<open>The dictionary \<^verbatim>\<open>set_env_colors\<close> returns, keyed by the four pygments token
  types \<^verbatim>\<open>Name.Tag\<close>, \<^verbatim>\<open>Keyword\<close>, \<^verbatim>\<open>Number\<close>, \<^verbatim>\<open>String\<close>.\<close>

record color_styles =
  style_Name_Tag :: string
  style_Keyword :: string
  style_Number :: string
  style_String :: string

text \<open>The \<^verbatim>\<open>return { ... }\<close> of \<^verbatim>\<open>set_env_colors\<close>, its four entries evaluated in
  the order written.\<close>

definition color_dict :: "bool \<Rightarrow> string list \<Rightarrow> py_error + color_styles" where
  "color_dict legacy color_list =
     and_then (slot_color legacy color_list 0 ''blue'') (\<lambda>tag.
     and_then (slot_color legacy color_list 1 ''brightblack'') (\<lambda>kw.
     and_then (slot_color legacy color_list 2 ''magenta'') (\<lambda>num.
     and_then (slot_color legacy color_list 3 ''green'') (\<lambda>str.
       Inr \<lparr>style_Name_Tag = ''bold '' @ tag, style_Keyword = kw,
            style_Number = num, style_String = str\<rparr>))))"

definition color_defaults :: "string list" where
  "color_defaults = [''default'', ''default'', ''default'', ''default'']"

definition color_warning :: string where
  "color_warning = ''could not parse JC_COLORS environment variable''"

text \<open>
  \<^verbatim>\<open>
  def set_env_colors(env_colors=None):
      input_error = False
      if env_colors:
          color_list = env_colors.split(',')
      else:
          color_list = ['default', 'default', 'default', 'default']
      if len(color_list) != 4:
          input_error = True
      for color in color_list:
          if color != 'default' and color not in PYGMENT_COLOR:
              input_error = True
      if input_error:
          jc.utils.warning_message('could not parse JC_COLORS environment variable')
          color_list = ['default', 'default', 'default', 'default']
      return {
          Name.Tag: f'bold {PYGMENT_COLOR[color_list[0]]}' if color_list[0] != 'default' else f"bold {PYGMENT_COLOR['blue']}",
          Keyword: PYGMENT_COLOR[color_list[1]] if color_list[1] != 'default' else PYGMENT_COLOR['brightblack'],
          Number: PYGMENT_COLOR[color_list[2]] if color_list[2] != 'default' else PYGMENT_COLOR['magenta'],
          String: PYGMENT_COLOR[color_list[3]] if color_list[3] != 'default' else PYGMENT_COLOR['green']
      }
  \<close>
  The result is the list of warnings written and the dictionary, or what was raised.
  \<open>env_colors\<close> is \<open>None\<close> for Python's \<^verbatim>\<open>None\<close>; \<^verbatim>\<open>if env_colors:\<close> is false for
  \<^verbatim>\<open>None\<close> and for the empty string.
\<close>

definition set_env_colors ::
  "bool \<Rightarrow> string option \<Rightarrow> string list \<times> (py_error + color_styles)" where
  "set_env_colors legacy env_colors =
     (let color_list =
            (case env_colors of
               None \<Rightarrow> color_defaults
             | Some s \<Rightarrow> if s \<noteq> [] then split_sep (CHR '','') s else color_defaults);
          input_error =
            (length color_list \<noteq> 4 \<or>
             list_ex (\<lambda>color. color \<noteq> ''default'' \<and> map_of (PYGMENT_COLOR legacy) color = None)
               color_list);
          warnings = (if input_error then [color_warning] else []);
          color_list = (if input_error then color_defaults else color_list)
      in (warnings, color_dict legacy color_list))"

text \<open>The all-default scheme, written out: key names blue and bold, keywords bright
  black, numbers magenta, strings green.\<close>

definition default_styles :: "bool \<Rightarrow> color_styles" where
  "default_styles legacy =
     (if legacy
      then \<lparr>style_Name_Tag = ''bold #ansidarkblue'', style_Keyword = ''#ansidarkgray'',
            style_Number = ''#ansipurple'', style_String = ''#ansidarkgreen''\<rparr>
      else \<lparr>style_Name_Tag = ''bold ansiblue'', style_Keyword = ''ansibrightblack'',
            style_Number = ''ansimagenta'', style_String = ''ansigreen''\<rparr>)"

text \<open>A malformed colour string, in the words of the specification: it does not split
  into exactly four comma-separated tokens, or one of its tokens is neither the literal
  \<^verbatim>\<open>default\<close> nor a name of the palette.\<close>

definition malformed_color_spec :: "bool \<Rightarrow> string \<Rightarrow> bool" where
  "malformed_color_spec legacy s =
     (length (split_sep (CHR '','') s) \<noteq> 4 \<or>
      list_ex (\<lambda>t. t \<noteq> ''default'' \<and> t \<notin> fst ` set (PYGMENT_COLOR legacy))
        (split_sep (CHR '','') s))"

subsection \<open>The catalogue of converters\<close>

text \<open>The list \<^verbatim>\<open>parsers\<close> as the module text has it.\<close>

definition builtin_parsers :: "string list" where
  "builtin_parsers =
    [''acpi'', ''airport'', ''airport-s'', ''arp'', ''blkid'', ''cksum'', ''crontab'',
     ''crontab-u'', ''csv'', ''date'', ''df'', ''dig'', ''dir'', ''dmidecode'',
     ''dpkg-l'', ''du'', ''env'', ''file'', ''finger'', ''free'', ''fstab'', ''group'',
     ''gshadow'', ''hash'', ''hashsum'', ''hciconfig'', ''history'', ''hosts'', ''id'',
     ''ifconfig'', ''ini'', ''iptables'', ''iw-scan'', ''jobs'', ''kv'', ''last'',
     ''ls'', ''lsblk'', ''lsmod'', ''lsof'', ''mount'', ''netstat'', ''ntpq'',
     ''passwd'', ''ping'', ''pip-list'', ''pip-show'', ''ps'', ''route'', ''rpm-qi'',
     ''shadow'', ''ss'', ''stat'', ''sysctl'', ''systemctl'', ''systemctl-lj'',
     ''systemctl-ls'', ''systemctl-luf'', ''systeminfo'', ''time'', ''timedatectl'',
     ''tracepath'', ''traceroute'', ''ufw'', ''ufw-appinfo'', ''uname'', ''upower'',
     ''uptime'', ''w'', ''wc'', ''who'', ''xml'', ''yaml'']"

text \<open>
  At import the module scans the directory of local converters and appends the names
  it finds:
  \<^verbatim>\<open>
  local_parsers.append(plugin_name)
  if plugin_name not in parsers:
      parsers.append(plugin_name)
  \<close>
  \<open>local_parsers\<close> is the list of names found, in the order of the scan; \<open>parsers\<close>
  is the catalogue after the scan.
\<close>

definition parsers :: "string list \<Rightarrow> string list" where
  "parsers local_parsers =
     foldl (\<lambda>ps plugin_name. if plugin_name \<in> set ps then ps else ps @ [plugin_name])
       builtin_parsers local_parsers"

text \<open>
  The converter modules are not part of \<^verbatim>\<open>cli.py\<close>. Of a module the code reads its
  \<^verbatim>\<open>__name__\<close>, its \<^verbatim>\<open>__doc__\<close>, the attributes of its class \<^verbatim>\<open>info\<close> (when it
  has one) and calls \<^verbatim>\<open>parse(data, raw=, quiet=)\<close>. Of \<^verbatim>\<open>info\<close> it reads
  \<^verbatim>\<open>description\<close>, \<^verbatim>\<open>compatible\<close>, \<^verbatim>\<open>version\<close>, \<^verbatim>\<open>author\<close>, \<^verbatim>\<open>author_email\<close>
  and, when declared, \<^verbatim>\<open>magic_commands\<close> (\<open>None\<close>: not declared).
\<close>

record parser_info =
  description :: string
  magic_commands :: "string list option"
  compatible :: "string list"
  version :: string
  author :: string
  author_email :: string

record 'r parser_mod =
  mod_name :: string
  mod_doc :: string
  mod_info :: "parser_info option"
  mod_parse :: "string \<Rightarrow> bool \<Rightarrow> bool \<Rightarrow> py_error + 'r"

text \<open>
  What the run reads from outside the module: the names the plugin scan found,
  \<^verbatim>\<open>importlib.import_module\<close> (\<open>None\<close>: no such module), the host the run is
  on, whether pygments could be imported and whether its version starts with
  \<^verbatim>\<open>2.3.\<close>, the environment variable \<^verbatim>\<open>JC_COLORS\<close>, and the two standard streams.
\<close>

record 'r world =
  local_parsers :: "string list"
  import_module :: "string \<Rightarrow> 'r parser_mod option"
  machine :: host
  pygments_installed :: bool
  pygments_legacy :: bool
  JC_COLORS :: "string option"
  stdin_isatty :: bool
  stdin_read :: string
  stdout_isatty :: bool

text \<open>
  \<^verbatim>\<open>
  def parser_shortname(parser_argument):
      """Return short name of the parser with dashes and no -- prefix"""
      return parser_argument[2:]

  def parser_argument(parser):
      return f'--{parser}'

  def parser_mod_shortname(parser):
      return parser.replace('--', '').replace('-', '_')

  def parser_module(parser):
      shortname = parser_mod_shortname(parser)
      path = ('jcparsers.' if shortname in local_parsers else 'jc.parsers.')
      return importlib.import_module(path + shortname)
  \<close>
\<close>

definition parser_shortname :: "string \<Rightarrow> string" where
  "parser_shortname parser_argument = drop 2 parser_argument"

definition parser_argument :: "string \<Rightarrow> string" where
  "parser_argument parser = ''--'' @ parser"

definition parser_mod_shortname :: "string \<Rightarrow> string" where
  "parser_mod_shortname parser = str_replace ''-'' ''_'' (str_replace ''--'' [] parser)"

definition parser_module_path :: "string list \<Rightarrow> string \<Rightarrow> string" where
  "parser_module_path local parser =
     (let shortname = parser_mod_shortname parser;
          path = (if shortname \<in> set local then ''jcparsers.'' else ''jc.parsers.'')
      in path @ shortname)"

definition parser_module :: "'r world \<Rightarrow> string \<Rightarrow> py_error + 'r parser_mod" where
  "parser_module W parser =
     (case import_module W (parser_module_path (local_parsers W) parser) of
        None \<Rightarrow> Inl ModuleNotFoundError
      | Some m \<Rightarrow> Inr m)"

text \<open>
  One entry of the list \<^verbatim>\<open>about_jc()['parsers']\<close>: the keys \<^verbatim>\<open>name\<close> and
  \<^verbatim>\<open>argument\<close>, and the attributes copied from \<^verbatim>\<open>vars(parser_mod.info)\<close>.
\<close>

record info_dict =
  name :: string
  argument :: string
  attrs :: parser_info

text \<open>
  \<^verbatim>\<open>
  def about_jc():
      parser_list = []
      for parser in parsers:
          parser_mod = parser_module(parser)
          if hasattr(parser_mod, 'info'):
              info_dict = {}
              info_dict['name'] = parser_mod.__name__.split('.')[-1]
              info_dict['argument'] = parser_argument(parser)
              parser_entry = vars(parser_mod.info)
              for k, v in parser_entry.items():
                  if not k.startswith('__'):
                      info_dict[k] = v
          parser_list.append(info_dict)
      return {'name': 'jc', ..., 'parser_count': len(parser_list), 'parsers': parser_list}
  \<close>
  The \<^verbatim>\<open>append\<close> is outside the \<^verbatim>\<open>if\<close>: for a module with no \<^verbatim>\<open>info\<close> the entry
  of the module before it is appended again, and when no entry exists yet the name
  \<^verbatim>\<open>info_dict\<close> is unbound. \<open>about_jc\<close> is the list under the key \<^verbatim>\<open>parsers\<close>;
  the other keys are constants of the module and the length of this list.
\<close>

fun about_loop ::
  "'r world \<Rightarrow> string list \<Rightarrow> info_dict option \<Rightarrow> info_dict list \<Rightarrow> py_error + info_dict list"
  where
  "about_loop W [] info_dict parser_list = Inr parser_list"
| "about_loop W (parser # rest) info_dict parser_list =
     (case parser_module W parser of
        Inl e \<Rightarrow> Inl e
      | Inr parser_mod \<Rightarrow>
          (case (case mod_info parser_mod of
                   Some i \<Rightarrow>
                     Some \<lparr>name = last (split_sep (CHR ''.'') (mod_name parser_mod)),
                           argument = parser_argument parser, attrs = i\<rparr>
                 | None \<Rightarrow> info_dict) of
             None \<Rightarrow> Inl UnboundLocalError
           | Some d \<Rightarrow> about_loop W rest (Some d) (parser_list @ [d])))"

definition about_jc :: "'r world \<Rightarrow> py_error + info_dict list" where
  "about_jc W = about_loop W (parsers (local_parsers W)) None []"

subsection \<open>Magic syntax\<close>

text \<open>
  The loop that finds the options, over a copy of \<^verbatim>\<open>args_given\<close> while the
  front of \<^verbatim>\<open>args_given\<close> is popped:
  \<^verbatim>\<open>
  for arg in list(args_given):
      if arg.startswith('--'):
          return False, None, None, []
      elif arg.startswith('-'):
          options.extend(args_given.pop(0)[1:])
      else:
          break
  \<close>
  \<open>None\<close> is the early return; otherwise the tokens left and the options, one
  character each.
\<close>

fun find_options :: "string list \<Rightarrow> string \<Rightarrow> (string list \<times> string) option" where
  "find_options [] options = Some ([], options)"
| "find_options (arg # args_given) options =
     (if startswith arg ''--'' then None
      else if startswith arg ''-'' then find_options args_given (options @ drop 1 arg)
      else Some (arg # args_given, options))"

text \<open>
  The table of magic commands:
  \<^verbatim>\<open>
  magic_dict = {}
  for entry in parser_info:
      magic_dict.update({mc: entry['argument'] for mc in entry.get('magic_commands', [])})
  \<close>
  \<open>declared_phrases\<close> is \<^verbatim>\<open>entry.get('magic_commands', [])\<close>; \<^verbatim>\<open>dict.update\<close>
  stores every pair of its argument, replacing the value of a key already present.
\<close>

definition declared_phrases :: "info_dict \<Rightarrow> string list" where
  "declared_phrases entry =
     (case magic_commands (attrs entry) of None \<Rightarrow> [] | Some mcs \<Rightarrow> mcs)"

definition magic_update :: "(string \<rightharpoonup> string) \<Rightarrow> info_dict \<Rightarrow> (string \<rightharpoonup> string)" where
  "magic_update magic_dict entry =
     foldl (\<lambda>d mc. d(mc \<mapsto> argument entry)) magic_dict (declared_phrases entry)"

definition build_magic_dict :: "info_dict list \<Rightarrow> (string \<rightharpoonup> string)" where
  "build_magic_dict parser_info = foldl magic_update Map.empty parser_info"

text \<open>
  \<^verbatim>\<open>
  one_word_command = args_given[0]
  two_word_command = ' '.join(args_given[0:2])
  found_parser = magic_dict.get(two_word_command, magic_dict.get(one_word_command))
  \<close>
  \<open>args_given\<close> is not empty where the code reaches these lines.
\<close>

definition find_parser :: "(string \<rightharpoonup> string) \<Rightarrow> string list \<Rightarrow> string option" where
  "find_parser magic_dict args_given =
     (let one_word_command = hd args_given;
          two_word_command = join '' '' (take 2 args_given)
      in case magic_dict two_word_command of
           Some p \<Rightarrow> Some p
         | None \<Rightarrow> magic_dict one_word_command)"

text \<open>The line
  \<^verbatim>\<open>args_given = ' '.join(map(shlex.quote, args[1:])).split()\<close>.\<close>

definition retokenize :: "string list \<Rightarrow> string list" where
  "retokenize args = split_ws (join '' '' (map shlex_quote (drop 1 args)))"

text \<open>Python's truth value of a string or \<^verbatim>\<open>None\<close>.\<close>

definition truthy :: "string option \<Rightarrow> bool" where
  "truthy v = (case v of None \<Rightarrow> False | Some s \<Rightarrow> s \<noteq> [])"

text \<open>
  \<^verbatim>\<open>
  def magic_parser(args):
      if len(args) <= 1 or args[1].startswith('--'):
          return False, None, None, []
      args_given = ' '.join(map(shlex.quote, args[1:])).split()
      options = []
      for arg in list(args_given): ...
      if 'h' in options or 'a' in options or 'v' in options:
          return False, None, None, []
      if len(args_given) == 0:
          return False, None, None, []
      magic_dict = {}
      parser_info = about_jc()['parsers']
      for entry in parser_info: ...
      one_word_command = args_given[0]
      two_word_command = ' '.join(args_given[0:2])
      found_parser = magic_dict.get(two_word_command, magic_dict.get(one_word_command))
      return (True if found_parser else False, args_given, found_parser, options)
  \<close>
  The result is \<open>(valid_command, run_command, jc_parser, jc_options)\<close>.
\<close>

definition magic_parser ::
  "'r world \<Rightarrow> string list \<Rightarrow> py_error + (bool \<times> string list option \<times> string option \<times> string)"
  where
  "magic_parser W args =
     (if length args \<le> 1 then Inr (False, None, None, [])
      else if startswith (args ! 1) ''--'' then Inr (False, None, None, [])
      else
        (case find_options (retokenize args) [] of
           None \<Rightarrow> Inr (False, None, None, [])
         | Some (args_given, options) \<Rightarrow>
             if CHR ''h'' \<in> set options \<or> CHR ''a'' \<in> set options \<or> CHR ''v'' \<in> set options
             then Inr (False, None, None, [])
             else if length args_given = 0 then Inr (False, None, None, [])
             else
               (case about_jc W of
                  Inl e \<Rightarrow> Inl e
                | Inr parser_info \<Rightarrow>
                    (let magic_dict = build_magic_dict parser_info;
                         found_parser = find_parser magic_dict args_given
                     in Inr (truthy found_parser, Some args_given, found_parser, options)))))"

subsection \<open>Output\<close>

text \<open>
  What the run writes, in order: a text printed to stdout, the stderr text of the
  user's command passed on, and the messages of \<^verbatim>\<open>jc.utils.warning_message\<close> and
  \<^verbatim>\<open>jc.utils.error_message\<close>. The JSON rendering itself belongs to \<^verbatim>\<open>json\<close> and
  pygments: \<open>JsonText data pretty styles\<close> stands for the text \<^verbatim>\<open>json_out\<close> returns
  for \<open>data\<close>, highlighted with \<open>styles\<close> or plain (\<open>None\<close>). \<open>HelpText s\<close> is the
  help template around the converter list \<open>s\<close>, \<open>VersionText\<close> the version template.
\<close>

datatype 'r json_data = AboutData "info_dict list" | ParsedData 'r

datatype 'r printed =
    JsonText "'r json_data" bool "color_styles option"
  | DocText string
  | HelpText string
  | VersionText

datatype 'r event =
    Stdout "'r printed"
  | Stderr string
  | Warning string
  | Error string

text \<open>
  \<^verbatim>\<open>
  def json_out(data, pretty=False, env_colors=None, mono=False, piped_out=False):
      if not mono and not piped_out:
          class JcStyle(Style):
              styles = set_env_colors(env_colors)
          if pretty: return str(highlight(json.dumps(data, indent=2, ...), ...)[0:-1])
          else:      return str(highlight(json.dumps(data, separators=(',', ':'), ...), ...)[0:-1])
      else:
          if pretty: return json.dumps(data, indent=2, ensure_ascii=False)
          else:      return json.dumps(data, separators=(',', ':'), ensure_ascii=False)
  \<close>
  with the warnings \<^verbatim>\<open>set_env_colors\<close> wrote.
\<close>

definition json_out ::
  "bool \<Rightarrow> 'r json_data \<Rightarrow> bool \<Rightarrow> string option \<Rightarrow> bool \<Rightarrow> bool \<Rightarrow>
   string list \<times> (py_error + 'r printed)" where
  "json_out legacy data pretty env_colors mono' piped_out =
     (if \<not> mono' \<and> \<not> piped_out
      then (case set_env_colors legacy env_colors of
              (warnings, r) \<Rightarrow>
                (warnings, and_then r (\<lambda>styles. Inr (JsonText data pretty (Some styles)))))
      else ([], Inr (JsonText data pretty None)))"

text \<open>
  \<^verbatim>\<open>
  def parsers_text(indent=0, pad=0):
      ptext = ''
      for parser in parsers:
          parser_arg = parser_argument(parser)
          parser_mod = parser_module(parser)
          if hasattr(parser_mod, 'info'):
              parser_desc = parser_mod.info.description
              padding = pad - len(parser_arg)
              padding_char = ' '
              indent_text = padding_char * indent
              padding_text = padding_char * padding
              ptext += indent_text + parser_arg + padding_text + parser_desc + '\n'
      return ptext
  \<close>
\<close>

fun parsers_text ::
  "'r world \<Rightarrow> nat \<Rightarrow> int \<Rightarrow> string list \<Rightarrow> string \<Rightarrow> py_error + string" where
  "parsers_text W indent pad [] ptext = Inr ptext"
| "parsers_text W indent pad (parser # rest) ptext =
     (case parser_module W parser of
        Inl e \<Rightarrow> Inl e
      | Inr parser_mod \<Rightarrow>
          parsers_text W indent pad rest
            (case mod_info parser_mod of
               None \<Rightarrow> ptext
             | Some i \<Rightarrow>
                 ptext @ replicate indent (CHR '' '') @ parser_argument parser @
                 replicate (nat (pad - int (length (parser_argument parser)))) (CHR '' '') @
                 description i @ [CHR 0x0A]))"

text \<open>\<^verbatim>\<open>helptext()\<close>: the template around \<^verbatim>\<open>parsers_text(indent=12, pad=17)\<close>.\<close>

definition helptext :: "'r world \<Rightarrow> py_error + 'r printed" where
  "helptext W =
     and_then (parsers_text W 12 17 (parsers (local_parsers W)) []) (\<lambda>parsers_string.
       Inr (HelpText parsers_string))"

text \<open>
  \<^verbatim>\<open>
  def help_doc(options):
      for arg in options:
          parser_name = parser_shortname(arg)
          if parser_name in parsers:
              parser = parser_module(arg)
              compatible = ', '.join(parser.info.compatible)
              doc_text = (parser.__doc__, a newline, 'Compatibility:  ', compatible,
                          two newlines, 'Version ', parser.info.version, ' by ',
                          parser.info.author, ' (', parser.info.author_email, ')',
                          a newline, as one f-string)
              return doc_text
      return helptext()
  \<close>
\<close>

definition help_doc :: "'r world \<Rightarrow> string list \<Rightarrow> py_error + 'r printed" where
  "help_doc W options =
     (case find (\<lambda>arg. parser_shortname arg \<in> set (parsers (local_parsers W))) options of
        Some arg \<Rightarrow>
          and_then (parser_module W arg) (\<lambda>parser.
            case mod_info parser of
              None \<Rightarrow> Inl AttributeError
            | Some i \<Rightarrow>
                Inr (DocText
                  (mod_doc parser @ [CHR 0x0A] @ ''Compatibility:  '' @
                   join '', '' (compatible i) @ [CHR 0x0A, CHR 0x0A] @ ''Version '' @
                   version i @ '' by '' @ author i @ '' ('' @ author_email i @ '')'' @
                   [CHR 0x0A])))
      | None \<Rightarrow> helptext W)"

subsection \<open>The dispatcher\<close>

text \<open>The end of the four error messages: \<^verbatim>\<open>Use "jc -h" for help.\<close>\<close>

definition use_help :: string where
  "use_help = ''Use '' @ [CHR 0x22] @ ''jc -h'' @ [CHR 0x22] @ '' for help.''"

text \<open>
  The first part of \<^verbatim>\<open>main\<close>, after \<^verbatim>\<open>magic_parser\<close> returned:
  \<^verbatim>\<open>
  magic_stdout, magic_stderr, magic_exit_code = None, None, 0
  ...
  if valid_command:
      magic_stdout, magic_stderr, magic_exit_code = run_user_command(run_command)
      if magic_stderr:
          print(magic_stderr[:-1], file=sys.stderr)
  elif run_command is None:
      pass
  else:
      run_command_str = ' '.join(run_command)
      jc.utils.error_message(f'parser not found for "{run_command_str}". Use "jc -h" for help.')
      sys.exit(combined_exit_code(magic_exit_code, JC_ERROR_EXIT))
  \<close>
  The result is what was written and \<open>(magic_stdout, magic_exit_code)\<close>, or what was
  raised. (\<open>valid_command\<close> with no \<open>run_command\<close> does not occur; \<open>Popen\<close> would raise
  a \<open>TypeError\<close> for it.)
\<close>

definition main_magic ::
  "'r world \<Rightarrow> bool \<Rightarrow> string list option \<Rightarrow> 'r event list \<times> (py_error + (string option \<times> int))"
  where
  "main_magic W valid_command run_command =
     (if valid_command then
        (case run_command of
           None \<Rightarrow> ([], Inl TypeError)
         | Some command \<Rightarrow>
             (case run_user_command (machine W) command of
                Inl e \<Rightarrow> ([], Inl e)
              | Inr (magic_stdout, magic_stderr, magic_exit_code) \<Rightarrow>
                  (if magic_stderr \<noteq> [] then [Stderr (butlast magic_stderr)] else [],
                   Inr (Some magic_stdout, magic_exit_code))))
      else
        (case run_command of
           None \<Rightarrow> ([], Inr (None, 0))
         | Some command \<Rightarrow>
             ([Error (''parser not found for '' @ [CHR 0x22] @ join '' '' command @
                      [CHR 0x22] @ ''. '' @ use_help)],
              Inl (SystemExit (combined_exit_code 0 JC_ERROR_EXIT)))))"

text \<open>
  \<^verbatim>\<open>
  for opt in sys.argv:
      if opt.startswith('-') and not opt.startswith('--'):
          options.extend(opt[1:])
  \<close>
\<close>

definition argv_options :: "string list \<Rightarrow> string" where
  "argv_options argv =
     concat (map (drop 1) (filter (\<lambda>opt. startswith opt ''-'' \<and> \<not> startswith opt ''--'') argv))"

text \<open>\<^verbatim>\<open>print(json_out(data, pretty=pretty, env_colors=jc_colors, mono=mono,
  piped_out=piped_output()))\<close> followed by \<^verbatim>\<open>sys.exit(code)\<close>.\<close>

definition print_json ::
  "'r world \<Rightarrow> 'r json_data \<Rightarrow> bool \<Rightarrow> bool \<Rightarrow> int \<Rightarrow> 'r event list \<times> py_error" where
  "print_json W data pretty mono' code =
     (case json_out (pygments_legacy W) data pretty (JC_COLORS W) mono' (\<not> stdout_isatty W) of
        (warnings, Inl e) \<Rightarrow> (map Warning warnings, e)
      | (warnings, Inr t) \<Rightarrow> (map Warning warnings @ [Stdout t], SystemExit code))"

text \<open>
  The \<^verbatim>\<open>try\<close> around \<^verbatim>\<open>parser.parse\<close> and the last two lines of \<^verbatim>\<open>main\<close>:
  \<^verbatim>\<open>
  try:
      result = parser.parse(data, raw=raw, quiet=quiet)
  except Exception:
      if debug:
          raise
      else:
          jc.utils.error_message(
              f'{parser_name} parser could not parse the input data. Did you use the correct parser?\n'
              '             For details use the -d or -dd option. Use "jc -h" for help.')
          sys.exit(combined_exit_code(magic_exit_code, JC_ERROR_EXIT))
  print(json_out(result, ...))
  sys.exit(combined_exit_code(magic_exit_code, 0))
  \<close>
  \<open>parser_name\<close> is \<open>None\<close> when the name is unbound: it is assigned only in the scan
  of \<^verbatim>\<open>sys.argv\<close>. \<open>SystemExit\<close> is no \<^verbatim>\<open>Exception\<close> and is not caught.
\<close>

definition main_parse ::
  "'r world \<Rightarrow> 'r parser_mod \<Rightarrow> string option \<Rightarrow> string \<Rightarrow> int \<Rightarrow> string \<Rightarrow>
   'r event list \<times> py_error" where
  "main_parse W parser parser_name data magic_exit_code options =
     (let debug = CHR ''d'' \<in> set options;
          mono' = (CHR ''m'' \<in> set options \<or> \<not> pygments_installed W);
          pretty = CHR ''p'' \<in> set options;
          quiet = CHR ''q'' \<in> set options;
          raw = CHR ''r'' \<in> set options
      in case mod_parse parser data raw quiet of
           Inr result \<Rightarrow>
             print_json W (ParsedData result) pretty mono' (combined_exit_code magic_exit_code 0)
         | Inl (SystemExit n) \<Rightarrow> ([], SystemExit n)
         | Inl e \<Rightarrow>
             if debug then ([], e)
             else (case parser_name of
                     None \<Rightarrow> ([], UnboundLocalError)
                   | Some n \<Rightarrow>
                       ([Error (n @ '' parser could not parse the input data. '' @
                                ''Did you use the correct parser?'' @ [CHR 0x0A] @
                                ''             For details use the -d or -dd option. '' @
                                use_help)],
                        SystemExit (combined_exit_code magic_exit_code JC_ERROR_EXIT))))"

text \<open>
  The scan of standard syntax:
  \<^verbatim>\<open>
  found = False
  for arg in sys.argv:
      parser_name = parser_shortname(arg)
      if parser_name in parsers:
          parser = parser_module(arg)
          found = True
          break
  \<close>
  The first argument that passes the test, if there is one.
\<close>

definition find_parser_arg :: "string list \<Rightarrow> string list \<Rightarrow> string option" where
  "find_parser_arg local argv = find (\<lambda>arg. parser_shortname arg \<in> set (parsers local)) argv"

text \<open>
  The rest of \<^verbatim>\<open>main\<close> once the options are known:
  \<^verbatim>\<open>
  about = 'a' in options
  ...
  if not pygments_installed:
      mono = True
  if about:
      print(json_out(about_jc(), pretty=pretty, env_colors=jc_colors, mono=mono, piped_out=piped_output()))
      sys.exit(0)
  if help_me:
      print(help_doc(sys.argv))
      sys.exit(0)
  if version_info:
      print(versiontext())
      sys.exit(0)
  if verbose_debug:
      jc.tracebackplus.enable(context=11)
  if sys.stdin.isatty() and magic_stdout is None:
      jc.utils.error_message('Missing piped data. Use "jc -h" for help.')
      sys.exit(combined_exit_code(magic_exit_code, JC_ERROR_EXIT))
  data = magic_stdout or sys.stdin.read()
  if magic_found_parser:
      parser = parser_module(magic_found_parser)
  else:
      (the scan)
      if not found:
          jc.utils.error_message('Missing or incorrect arguments. Use "jc -h" for help.')
          sys.exit(combined_exit_code(magic_exit_code, JC_ERROR_EXIT))
  (parse and print)
  \<close>
  \<^verbatim>\<open>jc.tracebackplus.enable\<close> changes how a traceback is printed and nothing else.
\<close>

definition main_dispatch ::
  "'r world \<Rightarrow> string list \<Rightarrow> string option \<Rightarrow> int \<Rightarrow> string option \<Rightarrow> string \<Rightarrow>
   'r event list \<times> py_error" where
  "main_dispatch W argv magic_stdout magic_exit_code magic_found_parser options =
     (let about = CHR ''a'' \<in> set options;
          mono' = (CHR ''m'' \<in> set options \<or> \<not> pygments_installed W);
          help_me = CHR ''h'' \<in> set options;
          pretty = CHR ''p'' \<in> set options;
          version_info = CHR ''v'' \<in> set options
      in if about then
           (case about_jc W of
              Inl e \<Rightarrow> ([], e)
            | Inr parser_list \<Rightarrow> print_json W (AboutData parser_list) pretty mono' 0)
         else if help_me then
           (case help_doc W argv of
              Inl e \<Rightarrow> ([], e)
            | Inr t \<Rightarrow> ([Stdout t], SystemExit 0))
         else if version_info then ([Stdout VersionText], SystemExit 0)
         else if stdin_isatty W \<and> magic_stdout = None then
           ([Error (''Missing piped data. '' @ use_help)],
            SystemExit (combined_exit_code magic_exit_code JC_ERROR_EXIT))
         else
           (let data = (if truthy magic_stdout then the magic_stdout else stdin_read W)
            in if truthy magic_found_parser then
                 (case parser_module W (the magic_found_parser) of
                    Inl e \<Rightarrow> ([], e)
                  | Inr parser \<Rightarrow> main_parse W parser None data magic_exit_code options)
               else
                 (case find_parser_arg (local_parsers W) argv of
                    None \<Rightarrow>
                      ([Error (''Missing or incorrect arguments. '' @ use_help)],
                       SystemExit (combined_exit_code magic_exit_code JC_ERROR_EXIT))
                  | Some arg \<Rightarrow>
                      (case parser_module W arg of
                         Inl e \<Rightarrow> ([], e)
                       | Inr parser \<Rightarrow>
                           main_parse W parser (Some (parser_shortname arg)) data
                             magic_exit_code options))))"

text \<open>
  \<^verbatim>\<open>main\<close>, run on \<^verbatim>\<open>sys.argv\<close>: what it writes and the exception that ends it
  (\<open>SystemExit\<close> with the exit code, on every path that raises nothing else).
  \<^verbatim>\<open>
  valid_command, run_command, magic_found_parser, magic_options = magic_parser(sys.argv)
  (the first part)
  options = []
  options.extend(magic_options)
  if not valid_command:
      (the options of sys.argv)
  \<close>
\<close>

definition main :: "'r world \<Rightarrow> string list \<Rightarrow> 'r event list \<times> py_error" where
  "main W argv =
     (case magic_parser W argv of
        Inl e \<Rightarrow> ([], e)
      | Inr (valid_command, run_command, magic_found_parser, magic_options) \<Rightarrow>
          (case main_magic W valid_command run_command of
             (written, Inl e) \<Rightarrow> (written, e)
           | (written, Inr (magic_stdout, magic_exit_code)) \<Rightarrow>
               (let options = magic_options @ (if \<not> valid_command then argv_options argv else [])
                in case main_dispatch W argv magic_stdout magic_exit_code magic_found_parser
                          options of
                     (written', e) \<Rightarrow> (written @ written', e))))"

subsection \<open>An example installation\<close>

text \<open>
  A world for the examples. Every converter of the built-in catalogue can be imported
  from \<^verbatim>\<open>jc.parsers\<close> and has an \<^verbatim>\<open>info\<close>; four of them declare magic commands, as
  the converters of jc do; \<^verbatim>\<open>parse\<close> returns the name of the module with the text it
  was given. There are no local converters, standard input is a pipe holding the
  output of \<^verbatim>\<open>uptime\<close>, and the system has a \<^verbatim>\<open>systemctl\<close>.
\<close>

definition demo_magic :: "string \<Rightarrow> string list option" where
  "demo_magic path =
     (if path = ''jc.parsers.systemctl'' then Some [''systemctl'']
      else if path = ''jc.parsers.systemctl_lj'' then Some [''systemctl list-jobs'']
      else if path = ''jc.parsers.uptime'' then Some [''uptime'']
      else if path = ''jc.parsers.dig'' then Some [''dig'']
      else None)"

definition demo_info :: "string \<Rightarrow> parser_info" where
  "demo_info path =
     \<lparr>description = ''a converter'', magic_commands = demo_magic path,
      compatible = [''linux''], version = ''1.0'', author = ''Kelly Brazil'',
      author_email = ''kellyjonbrazil@gmail.com''\<rparr>"

definition demo_module :: "string \<Rightarrow> (string \<times> string) parser_mod" where
  "demo_module path =
     \<lparr>mod_name = path, mod_doc = ''documentation of '' @ path,
      mod_info = Some (demo_info path),
      mod_parse = (\<lambda>data raw quiet. Inr (path, data))\<rparr>"

definition demo_import :: "string \<Rightarrow> (string \<times> string) parser_mod option" where
  "demo_import path =
     (if path \<in> set (map (parser_module_path []) builtin_parsers)
      then Some (demo_module path) else None)"

definition demo_world :: "(string \<times> string) world" where
  "demo_world =
     \<lparr>local_parsers = [], import_module = demo_import,
      machine =
        \<lparr>binaries = [''systemctl'' \<mapsto> Executable (\<lambda>_. (''JOB UNIT TYPE STATE'', [], 0))],
         locale_decode = ascii_decode\<rparr>,
      pygments_installed = True, pygments_legacy = False, JC_COLORS = None,
      stdin_isatty = False, stdin_read = ''up 3 days'', stdout_isatty = False\<rparr>"

definition demo_entry :: "string \<Rightarrow> info_dict" where
  "demo_entry p =
     \<lparr>name = last (split_sep (CHR ''.'') (parser_module_path [] p)),
      argument = parser_argument p, attrs = demo_info (parser_module_path [] p)\<rparr>"

text \<open>Two entries of a converter list that declare the same magic command, in the
  order of the catalogue (\<^verbatim>\<open>airport\<close> stands before \<^verbatim>\<open>airport-s\<close>).\<close>

definition entry_airport :: info_dict where
  "entry_airport =
     \<lparr>name = ''airport'', argument = ''--airport'',
      attrs = \<lparr>description = ''airport -I command parser'',
               magic_commands = Some [''airport''],
               compatible = [''darwin''], version = ''1.0'', author = ''Kelly Brazil'',
               author_email = ''kellyjonbrazil@gmail.com''\<rparr>\<rparr>"

definition entry_airport_s :: info_dict where
  "entry_airport_s =
     \<lparr>name = ''airport_s'', argument = ''--airport-s'',
      attrs = \<lparr>description = ''airport -s command parser'',
               magic_commands = Some [''airport -s'', ''airport''],
               compatible = [''darwin''], version = ''1.0'', author = ''Kelly Brazil'',
               author_email = ''kellyjonbrazil@gmail.com''\<rparr>\<rparr>"

text \<open>
  The example installation with one local converter: the plugin directory holds
  \<^verbatim>\<open>sysjobs.py\<close>, whose \<^verbatim>\<open>info\<close> declares the two-word magic command
  \<^verbatim>\<open>systemctl list!jobs\<close>. Everything else is as in \<open>demo_world\<close>, where the built-in
  \<^verbatim>\<open>systemctl\<close> converter declares the one-word magic command \<^verbatim>\<open>systemctl\<close>.
\<close>

definition sysjobs_info :: parser_info where
  "sysjobs_info =
     \<lparr>description = ''systemctl list!jobs command parser'',
      magic_commands = Some [''systemctl list!jobs''],
      compatible = [''linux''], version = ''1.0'', author = ''A User'',
      author_email = ''user@example.com''\<rparr>"

definition sysjobs_module :: "(string \<times> string) parser_mod" where
  "sysjobs_module =
     \<lparr>mod_name = ''jcparsers.sysjobs'', mod_doc = ''documentation of sysjobs'',
      mod_info = Some sysjobs_info,
      mod_parse = (\<lambda>data raw quiet. Inr (''jcparsers.sysjobs'', data))\<rparr>"

definition sysjobs_entry :: info_dict where
  "sysjobs_entry = \<lparr>name = ''sysjobs'', argument = ''--sysjobs'', attrs = sysjobs_info\<rparr>"

definition plugin_world :: "(string \<times> string) world" where
  "plugin_world =
     demo_world
       \<lparr>local_parsers := [''sysjobs''],
        import_module :=
          (\<lambda>path. if path = ''jcparsers.sysjobs'' then Some sysjobs_module
                  else demo_import path)\<rparr>"

text \<open>Whether an event is the about payload, and whether it is a help payload (the
  general help text or the documentation of one converter), on stdout.\<close>

definition printed_about :: "'r event \<Rightarrow> bool" where
  "printed_about ev =
     (case ev of Stdout (JsonText (AboutData _) _ _) \<Rightarrow> True | _ \<Rightarrow> False)"

definition printed_help :: "'r event \<Rightarrow> bool" where
  "printed_help ev =
     (case ev of Stdout (HelpText _) \<Rightarrow> True | Stdout (DocText _) \<Rightarrow> True | _ \<Rightarrow> False)"

section \<open>Properties\<close>

lemma and_then_simps [simp]:
  "and_then (Inl e) f = Inl e"
  "and_then (Inr v) f = f v"
  by (simp_all add: and_then_def)

subsection \<open>Exit-code combination\<close>

text \<open>
  C1. For all non-negative exit codes \<open>x\<close> (of the magic subprocess) and \<open>y\<close> (of the
  dispatcher), \<open>combined_exit_code x y\<close> is \<open>min 255 (x + y)\<close>; the witness evaluates
  the two examples of the specification, \<open>200, 100\<close> giving \<open>255\<close> and \<open>0, 0\<close>
  giving \<open>0\<close>.
\<close>

theorem combined_exit_code_min:
  "0 \<le> x \<Longrightarrow> 0 \<le> y \<Longrightarrow> combined_exit_code x y = min 255 (x + y)"
  by (simp add: combined_exit_code_def Let_def min_def)

theorem combined_exit_code_min_witness:
  "combined_exit_code 200 100 = 255 \<and> combined_exit_code 0 0 = 0"
  using combined_exit_code_min [of 200 100] combined_exit_code_min [of 0 0]
  by simp

text \<open>
  C10. Only the upper cap exists: whenever the sum of the two inputs is at most 255 the
  result is the exact sum, also for a negative subprocess code (a child killed by a
  signal), so the result can be negative or below \<open>JC_ERROR_EXIT\<close>.
\<close>

theorem combined_exit_code_no_lower_bound:
  "x + y \<le> 255 \<Longrightarrow> combined_exit_code x y = x + y"
  by (simp add: combined_exit_code_def Let_def)

theorem combined_exit_code_no_lower_bound_witness:
  "combined_exit_code (- 9) 0 = - 9 \<and>
   combined_exit_code (- 9) JC_ERROR_EXIT = 91 \<and>
   combined_exit_code (- 9) JC_ERROR_EXIT < JC_ERROR_EXIT"
  using combined_exit_code_no_lower_bound [of "- 9" 0]
    combined_exit_code_no_lower_bound [of "- 9" JC_ERROR_EXIT]
  by (simp add: JC_ERROR_EXIT_def)

subsection \<open>The command executor\<close>

lemma Popen_communicate_started:
  assumes "binaries h exe = Some (Executable prog)"
      and "prog (exe # args) = (out_bytes, err_bytes, rc)"
  shows "Popen_communicate h (exe # args) =
           and_then (translate_newlines h out_bytes) (\<lambda>stdout.
           and_then (translate_newlines h err_bytes) (\<lambda>stderr. Inr (stdout, stderr, rc)))"
  using assms by (simp add: Popen_communicate_def)

text \<open>
  C9. When the child ran and wrote nothing to its stdout, the first component of the
  outcome is a single newline; a non-empty stdout is returned as it is; in both cases
  the text handed on is not empty, and stderr and the return code are the child's.
\<close>

theorem run_user_command_stdout_default:
  assumes "Popen_communicate bins command = Inr (out, err, rc)"
  shows "run_user_command bins command =
           Inr (if out = [] then [CHR 0x0A] else out, err, rc) \<and>
         (\<exists>out'. run_user_command bins command = Inr (out', err, rc) \<and> out' \<noteq> [])"
  using assms by (simp add: run_user_command_def)

theorem run_user_command_stdout_default_witness:
  "run_user_command quiet_false [''false''] = Inr ([CHR 0x0A], [], 1) \<and>
   run_user_command ls_only [''ls'', ''-a''] = Inr (''cli.py'', [], 0)"
proof -
  have a: "Popen_communicate quiet_false [''false''] = Inr ([], [], 1)"
    by (simp add: Popen_communicate_def quiet_false_def translate_newlines_def
        ascii_decode_def)
  have b: "Popen_communicate ls_only [''ls'', ''-a''] = Inr (''cli.py'', [], 0)"
    by (simp add: Popen_communicate_def ls_only_def translate_newlines_def ascii_decode_def)
  show ?thesis
    using run_user_command_stdout_default [OF a] run_user_command_stdout_default [OF b]
    by simp
qed

text \<open>
  C7 (corrected). \<open>run_user_command\<close> has no handler, so it returns exactly when
  \<open>Popen\<close> and \<^verbatim>\<open>communicate\<close> return, and raises what they raise:
  \<^item> whenever they return texts and a return code, the outcome is the triple of the
    stdout text (a newline when empty), the stderr text and the return code, whatever
    the return code is;
  \<^item> whenever they raise, \<open>run_user_command\<close> raises the same exception and returns no
    triple. That is \<open>FileNotFoundError\<close> when the first token names no binary of the
    host, the error of the \<^verbatim>\<open>exec\<close> when the file cannot be executed, and
    \<open>UnicodeDecodeError\<close> when the child started and what it wrote to stdout or stderr
    does not decode;
  \<^item> when the child started and both streams decode, the outcome is returned with the
    child's return code \<open>rc'\<close>, which has no part in the decision to raise.
\<close>

theorem run_user_command_outcome:
  "(Popen_communicate h command = Inr (out, err, rc) \<longrightarrow>
      run_user_command h command = Inr (if out = [] then [CHR 0x0A] else out, err, rc)) \<and>
   (Popen_communicate h command = Inl e \<longrightarrow> run_user_command h command = Inl e) \<and>
   (binaries h exe = None \<longrightarrow>
      run_user_command h (exe # args) = Inl FileNotFoundError) \<and>
   (binaries h exe = Some (CannotStart e') \<longrightarrow>
      run_user_command h (exe # args) = Inl e') \<and>
   (binaries h exe = Some (Executable prog) \<and> prog (exe # args) = (out_bytes, err_bytes, rc') \<longrightarrow>
      run_user_command h (exe # args) =
        (case translate_newlines h out_bytes of
           Inl u \<Rightarrow> Inl u
         | Inr stdout \<Rightarrow>
             (case translate_newlines h err_bytes of
                Inl u \<Rightarrow> Inl u
              | Inr stderr \<Rightarrow>
                  Inr (if stdout = [] then [CHR 0x0A] else stdout, stderr, rc'))))"
proof (intro conjI impI)
  assume "binaries h exe = Some (Executable prog) \<and> prog (exe # args) = (out_bytes, err_bytes, rc')"
  then have "Popen_communicate h (exe # args) =
      and_then (translate_newlines h out_bytes) (\<lambda>stdout.
      and_then (translate_newlines h err_bytes) (\<lambda>stderr. Inr (stdout, stderr, rc')))"
    by (simp add: Popen_communicate_started)
  then show "run_user_command h (exe # args) =
        (case translate_newlines h out_bytes of
           Inl u \<Rightarrow> Inl u
         | Inr stdout \<Rightarrow>
             (case translate_newlines h err_bytes of
                Inl u \<Rightarrow> Inl u
              | Inr stderr \<Rightarrow>
                  Inr (if stdout = [] then [CHR 0x0A] else stdout, stderr, rc')))"
    by (simp add: run_user_command_def split: sum.splits)
qed (simp_all add: run_user_command_def Popen_communicate_def)

theorem run_user_command_outcome_witness:
  "run_user_command failing_dig [''dig'', ''example.com''] =
     Inr ([CHR 0x0A], ''dig: no servers could be reached'' @ [CHR 0x0A], 9) \<and>
   run_user_command failing_dig [''nslookup'', ''example.com''] = Inl FileNotFoundError \<and>
   run_user_command locked_dig [''dig'', ''example.com''] = Inl PermissionError \<and>
   run_user_command binary_dig [''dig'', ''example.com''] = Inl UnicodeDecodeError"
proof -
  have fd: "binaries failing_dig ''dig'' =
      Some (Executable (\<lambda>_. ([], ''dig: no servers could be reached'' @
                                 [CHR 0x0D, CHR 0x0A], 9)))"
    "binaries failing_dig ''nslookup'' = None"
    by (simp_all add: failing_dig_def)
  have ld: "binaries locked_dig ''dig'' = Some (CannotStart PermissionError)"
    by (simp add: locked_dig_def)
  have bd: "binaries binary_dig ''dig'' = Some (Executable (\<lambda>_. ([CHR 0xFF], [], 0)))"
    by (simp add: binary_dig_def)
  have dec: "translate_newlines failing_dig [] = Inr []"
    "translate_newlines failing_dig
       (''dig: no servers could be reached'' @ [CHR 0x0D, CHR 0x0A]) =
     Inr (''dig: no servers could be reached'' @ [CHR 0x0A])"
    "translate_newlines binary_dig [CHR 0xFF] = Inl UnicodeDecodeError"
    by (simp_all add: translate_newlines_def failing_dig_def binary_dig_def ascii_decode_def)
  show ?thesis
    using run_user_command_outcome [of failing_dig "[''dig'', ''example.com'']" _ _ _ _
        "''dig''" "[''example.com'']" _
        "\<lambda>_. ([], ''dig: no servers could be reached'' @ [CHR 0x0D, CHR 0x0A], 9)"
        "[]" "''dig: no servers could be reached'' @ [CHR 0x0D, CHR 0x0A]" 9]
      run_user_command_outcome [of failing_dig _ _ _ _ _ "''nslookup''" "[''example.com'']"]
      run_user_command_outcome [of locked_dig _ _ _ _ _ "''dig''" "[''example.com'']"
        PermissionError]
      run_user_command_outcome [of binary_dig _ _ _ _ _ "''dig''" "[''example.com'']" _
        "\<lambda>_. ([CHR 0xFF], [], 0)" "[CHR 0xFF]" "[]" 0]
      fd ld bd dec
    by simp
qed

text \<open>Against the reading of C7 in which a missing binary still gives an outcome:
  on a host with no \<^verbatim>\<open>dig\<close>, running \<^verbatim>\<open>dig example.com\<close> raises.\<close>

theorem run_user_command_missing_binary:
  "run_user_command ls_only [''dig'', ''example.com''] = Inl FileNotFoundError"
  by (simp add: run_user_command_def Popen_communicate_def ls_only_def)

subsection \<open>Colour configuration\<close>

lemma color_dict_defaults:
  "color_dict legacy color_defaults = Inr (default_styles legacy)"
  by (simp add: color_dict_def slot_color_def list_item_def color_defaults_def color_item_def
      PYGMENT_COLOR_def default_styles_def)

lemma input_error_iff:
  "(length toks \<noteq> 4 \<or>
    list_ex (\<lambda>color. color \<noteq> ''default'' \<and> map_of (PYGMENT_COLOR legacy) color = None) toks) =
   (length toks \<noteq> 4 \<or>
    list_ex (\<lambda>t. t \<noteq> ''default'' \<and> t \<notin> fst ` set (PYGMENT_COLOR legacy)) toks)"
  by (simp add: map_of_eq_None_iff)

lemma set_env_colors_empty:
  "set_env_colors legacy (Some []) = ([], Inr (default_styles legacy))"
proof -
  have ok: "length color_defaults = 4 \<and>
    \<not> list_ex (\<lambda>color. color \<noteq> ''default'' \<and> map_of (PYGMENT_COLOR legacy) color = None)
      color_defaults"
    by (simp add: color_defaults_def)
  then show ?thesis
    by (simp add: set_env_colors_def color_dict_defaults)
qed

text \<open>
  C6 (corrected). For every non-empty malformed colour string, \<open>set_env_colors\<close> writes
  exactly one warning and returns the complete default scheme (it raises nothing).
  The empty string is malformed in the words of the specification, but the guard
  \<^verbatim>\<open>if env_colors:\<close> treats it as an absent value: the default scheme with no warning, for both
  colour tables (\<open>set_env_colors_empty\<close>).
  The colour table is the one of an installed pygments; without pygments \<open>main\<close>
  forces monochrome output and \<open>set_env_colors\<close> is not called.
\<close>

theorem set_env_colors_malformed:
  assumes "s \<noteq> []" and "malformed_color_spec legacy s"
  shows "set_env_colors legacy (Some s) = ([color_warning], Inr (default_styles legacy))"
proof -
  have err: "length (split_sep (CHR '','') s) \<noteq> 4 \<or>
    list_ex (\<lambda>color. color \<noteq> ''default'' \<and> map_of (PYGMENT_COLOR legacy) color = None)
      (split_sep (CHR '','') s)"
    using assms(2) unfolding malformed_color_spec_def input_error_iff .
  show ?thesis
    unfolding set_env_colors_def Let_def
    using assms(1) err by (simp add: color_dict_defaults)
qed

theorem set_env_colors_malformed_witness:
  "set_env_colors False (Some ''blue,red'') = ([color_warning], Inr (default_styles False)) \<and>
   set_env_colors True (Some ''blue,red,green,pink'') =
     ([color_warning], Inr (default_styles True))"
proof -
  have a: "malformed_color_spec False ''blue,red''"
    by (simp add: malformed_color_spec_def)
  have b: "malformed_color_spec True ''blue,red,green,pink''"
    by (simp add: malformed_color_spec_def PYGMENT_COLOR_def)
  show ?thesis
    using set_env_colors_malformed [OF _ a] set_env_colors_malformed [OF _ b] by simp
qed

text \<open>Against the reading of C6 that covers the empty string: it is malformed, and
  no warning is written for it.\<close>

theorem set_env_colors_empty_string:
  "malformed_color_spec False [] \<and>
   set_env_colors False (Some []) = ([], Inr (default_styles False))"
proof -
  have ok: "length color_defaults = 4 \<and>
    \<not> list_ex (\<lambda>color. color \<noteq> ''default'' \<and> map_of (PYGMENT_COLOR False) color = None)
      color_defaults"
    by (simp add: color_defaults_def)
  have "set_env_colors False (Some []) = ([], Inr (default_styles False))"
    using ok by (simp add: set_env_colors_def color_dict_defaults)
  moreover have "malformed_color_spec False []"
    by (simp add: malformed_color_spec_def)
  ultimately show ?thesis by simp
qed

subsection \<open>The table of magic commands\<close>

lemma foldl_upd_apply:
  "foldl (\<lambda>d mc. d(mc \<mapsto> v)) d xs k = (if k \<in> set xs then Some v else d k)"
  by (induction xs arbitrary: d) auto

lemma magic_update_apply:
  "magic_update d e mc = (if mc \<in> set (declared_phrases e) then Some (argument e) else d mc)"
  by (simp add: magic_update_def foldl_upd_apply)

lemma build_magic_dict_snoc:
  "build_magic_dict (es @ [e]) mc =
     (if mc \<in> set (declared_phrases e) then Some (argument e) else build_magic_dict es mc)"
  by (simp add: build_magic_dict_def magic_update_apply)

lemma build_magic_dict_last:
  "build_magic_dict es mc =
     (let declaring = filter (\<lambda>e. mc \<in> set (declared_phrases e)) es
      in if declaring = [] then None else Some (argument (last declaring)))"
proof (induction es rule: rev_induct)
  case Nil
  show ?case by (simp add: build_magic_dict_def)
next
  case (snoc e es)
  show ?case
    by (simp add: build_magic_dict_snoc snoc.IH Let_def)
qed

lemma build_magic_dict_declaring:
  "build_magic_dict es mc = build_magic_dict (filter (\<lambda>e. declared_phrases e \<noteq> []) es) mc"
proof -
  have "(\<lambda>e. declared_phrases e \<noteq> [] \<and> mc \<in> set (declared_phrases e)) =
        (\<lambda>e. mc \<in> set (declared_phrases e))"
    by auto
  then show ?thesis
    by (simp add: build_magic_dict_last)
qed

text \<open>
  C3 (corrected). When two converters declare the same phrase, the phrase maps to the
  converter that comes last in the order of the converter list: \<^verbatim>\<open>dict.update\<close>
  replaces the entry of an earlier converter. For every list and phrase the table
  holds the argument of the last entry that declares the phrase (and nothing when no
  entry declares it), and appending a converter that declares the phrase replaces
  what the table held for it.
\<close>

theorem magic_dict_last_registration_wins:
  "build_magic_dict parser_info mc =
     (let declaring = filter (\<lambda>entry. mc \<in> set (declared_phrases entry)) parser_info
      in if declaring = [] then None else Some (argument (last declaring))) \<and>
   build_magic_dict (parser_info @ [entry]) mc =
     (if mc \<in> set (declared_phrases entry) then Some (argument entry)
      else build_magic_dict parser_info mc)"
  using build_magic_dict_last [of parser_info mc] build_magic_dict_snoc [of parser_info entry mc]
  by simp

text \<open>Against the first-registration reading of C3: \<^verbatim>\<open>airport\<close> is registered first by
  \<^verbatim>\<open>--airport\<close> and then by \<^verbatim>\<open>--airport-s\<close>; the table maps it to the second.\<close>

theorem magic_dict_first_registration_lost:
  "build_magic_dict [entry_airport, entry_airport_s] ''airport'' = Some ''--airport-s'' \<and>
   argument entry_airport = ''--airport''"
  by (simp add: build_magic_dict_def magic_update_apply declared_phrases_def
      entry_airport_def entry_airport_s_def)

subsection \<open>The example installation\<close>

lemma demo_fields:
  "local_parsers demo_world = []"
  "pygments_installed demo_world"
  "\<not> pygments_legacy demo_world"
  "JC_COLORS demo_world = None"
  "\<not> stdin_isatty demo_world"
  "stdin_read demo_world = ''up 3 days''"
  "\<not> stdout_isatty demo_world"
  by (simp_all add: demo_world_def)

lemma demo_parser_module:
  "p \<in> set builtin_parsers \<Longrightarrow>
   parser_module demo_world p = Inr (demo_module (parser_module_path [] p))"
  by (simp add: parser_module_def demo_world_def demo_import_def)

lemma demo_about_loop:
  "set ps \<subseteq> set builtin_parsers \<Longrightarrow>
   about_loop demo_world ps d acc = Inr (acc @ map demo_entry ps)"
  by (induction ps arbitrary: d acc)
     (simp_all add: demo_parser_module demo_module_def demo_entry_def)

lemma demo_about_jc: "about_jc demo_world = Inr (map demo_entry builtin_parsers)"
  by (simp add: about_jc_def parsers_def demo_about_loop demo_fields)

lemma demo_declaring:
  "filter (\<lambda>e. declared_phrases e \<noteq> []) (map demo_entry builtin_parsers) =
     [demo_entry ''dig'', demo_entry ''systemctl'', demo_entry ''systemctl-lj'',
      demo_entry ''uptime'']"
  by (simp add: builtin_parsers_def demo_entry_def declared_phrases_def demo_info_def
      demo_magic_def parser_module_path_def parser_mod_shortname_def)

lemma demo_magic_dict:
  "build_magic_dict (map demo_entry builtin_parsers) mc =
     (if mc = ''uptime'' then Some ''--uptime''
      else if mc = ''systemctl list-jobs'' then Some ''--systemctl-lj''
      else if mc = ''systemctl'' then Some ''--systemctl''
      else if mc = ''dig'' then Some ''--dig''
      else None)"
  unfolding build_magic_dict_declaring [of "map demo_entry builtin_parsers"] demo_declaring
  by (simp add: build_magic_dict_def magic_update_apply demo_entry_def declared_phrases_def
      demo_info_def demo_magic_def parser_module_path_def parser_mod_shortname_def
      parser_argument_def)

lemma demo_magic_parser_list_jobs:
  "magic_parser demo_world [''jc'', ''-p'', ''systemctl'', ''list-jobs''] =
     Inr (True, Some [''systemctl'', ''list-jobs''], Some ''--systemctl-lj'', ''p'')"
  by (simp add: magic_parser_def retokenize_def shlex_quote_def shlex_safe_def split_ws_def
      isspace_def startswith_def demo_about_jc find_parser_def demo_magic_dict truthy_def)

lemma demo_magic_parser_status:
  "magic_parser demo_world [''jc'', ''-p'', ''systemctl'', ''status''] =
     Inr (True, Some [''systemctl'', ''status''], Some ''--systemctl'', ''p'')"
  by (simp add: magic_parser_def retokenize_def shlex_quote_def shlex_safe_def split_ws_def
      isspace_def startswith_def demo_about_jc find_parser_def demo_magic_dict truthy_def)

subsection \<open>Magic syntax\<close>

lemma shlex_safe_not_space: "shlex_safe c \<Longrightarrow> \<not> isspace c"
  by (auto simp add: shlex_safe_def isspace_def Let_def)

lemma split_run_no_space:
  "list_all (\<lambda>c. \<not> isspace c) xs \<Longrightarrow> split_run w (xs @ ys) = split_run (w @ xs) ys"
  by (induction xs arbitrary: w) simp_all

lemma split_run_word:
  assumes "a \<noteq> []" and "list_all shlex_safe a"
  shows "split_run [] (a @ CHR '' '' # ys) = a # split_run [] ys"
    and "split_run [] a = [a]"
proof -
  have ns: "list_all (\<lambda>c. \<not> isspace c) a"
    using assms(2) by (simp add: list_all_iff shlex_safe_not_space)
  have sp: "isspace (CHR '' '')" by (simp add: isspace_def)
  show "split_run [] (a @ CHR '' '' # ys) = a # split_run [] ys"
    using assms(1) sp by (simp add: split_run_no_space [OF ns])
  show "split_run [] a = [a]"
    using assms(1) split_run_no_space [OF ns, of "[]" "[]"] by simp
qed

lemma shlex_quote_safe: "s \<noteq> [] \<Longrightarrow> list_all shlex_safe s \<Longrightarrow> shlex_quote s = s"
  by (simp add: shlex_quote_def)

lemma retokenize_two_words:
  assumes "a \<noteq> []" "list_all shlex_safe a" "b \<noteq> []" "list_all shlex_safe b"
  shows "retokenize (prog # a # b # given) = a # b # retokenize (prog # given)"
proof (cases "map shlex_quote given")
  case Nil
  then show ?thesis
    using assms
    by (simp add: retokenize_def split_ws_def shlex_quote_safe split_run_word)
next
  case (Cons q qs)
  then show ?thesis
    using assms
    by (simp add: retokenize_def split_ws_def shlex_quote_safe split_run_word)
qed

lemma startswith_dashes: "startswith s ''--'' \<Longrightarrow> startswith s ''-''"
  by (cases s) (auto simp add: startswith_def split: list.splits)

text \<open>
  What the lookup does, in every world where \<open>about_jc\<close> returns the converter list.
  For a user command of two or more tokens it returns the entry of the table for the
  two-token phrase when there is one, and the entry for the first token otherwise
  (\<open>find_parser_two_words\<close>); \<open>magic_parser\<close> returns that converter for every
  argument vector that reaches the lookup (\<open>magic_parser_lookup\<close>); and for two
  words of shell-safe characters given as arguments the tokens are the arguments
  (\<open>magic_parser_two_safe_words\<close>).
\<close>

lemma find_parser_two_words:
  "find_parser magic_dict (a # b # rest) =
     (case magic_dict (a @ '' '' @ b) of Some p \<Rightarrow> Some p | None \<Rightarrow> magic_dict a)"
  by (simp add: find_parser_def)

lemma magic_parser_lookup:
  assumes "about_jc W = Inr parser_info"
      and "1 < length args" and "\<not> startswith (args ! 1) ''--''"
      and "find_options (retokenize args) [] = Some (a # rest, opts)"
      and "CHR ''h'' \<notin> set opts" and "CHR ''a'' \<notin> set opts" and "CHR ''v'' \<notin> set opts"
  shows "magic_parser W args =
           Inr (truthy (find_parser (build_magic_dict parser_info) (a # rest)),
                Some (a # rest), find_parser (build_magic_dict parser_info) (a # rest), opts)"
  using assms by (simp add: magic_parser_def Let_def)

lemma magic_parser_two_safe_words:
  assumes about: "about_jc W = Inr parser_info"
      and words: "c \<noteq> []" "list_all shlex_safe c" "d \<noteq> []" "list_all shlex_safe d"
      and nodash: "\<not> startswith c ''-''"
  shows "magic_parser W (prog # c # d # given) =
           Inr (truthy (case build_magic_dict parser_info (c @ '' '' @ d) of
                          Some p \<Rightarrow> Some p
                        | None \<Rightarrow> build_magic_dict parser_info c),
                Some (c # d # retokenize (prog # given)),
                (case build_magic_dict parser_info (c @ '' '' @ d) of
                   Some p \<Rightarrow> Some p
                 | None \<Rightarrow> build_magic_dict parser_info c),
                [])"
proof -
  have nodd: "\<not> startswith c ''--''"
    using nodash startswith_dashes by blast
  have tok: "retokenize (prog # c # d # given) = c # d # retokenize (prog # given)"
    using words by (simp add: retokenize_two_words)
  have "find_options (retokenize (prog # c # d # given)) [] =
          Some (c # d # retokenize (prog # given), [])"
    using nodash nodd by (simp add: tok)
  from magic_parser_lookup [OF about _ _ this] nodd show ?thesis
    by (simp add: find_parser_two_words)
qed

text \<open>The installation with the local converter.\<close>

lemma plugin_fields:
  "local_parsers plugin_world = [''sysjobs'']"
  "import_module plugin_world ''jcparsers.sysjobs'' = Some sysjobs_module"
  by (simp_all add: plugin_world_def)

lemma builtin_no_sysjobs:
  "''sysjobs'' \<notin> set builtin_parsers"
  "''sysjobs'' \<notin> set (map parser_mod_shortname builtin_parsers)"
  by (simp_all add: builtin_parsers_def parser_mod_shortname_def)

lemma plugin_parsers: "parsers (local_parsers plugin_world) = builtin_parsers @ [''sysjobs'']"
  by (simp add: parsers_def plugin_fields builtin_no_sysjobs)

lemma plugin_parser_module:
  assumes "p \<in> set builtin_parsers"
  shows "parser_module plugin_world p = Inr (demo_module (parser_module_path [] p))"
proof -
  have "parser_mod_shortname p \<in> set (map parser_mod_shortname builtin_parsers)"
    using assms by simp
  with builtin_no_sysjobs(2) have short: "parser_mod_shortname p \<noteq> ''sysjobs''"
    by metis
  then have path: "parser_module_path [''sysjobs''] p = parser_module_path [] p"
    by (simp add: parser_module_path_def)
  have other: "parser_module_path [] p \<noteq> ''jcparsers.sysjobs''"
    by (simp add: parser_module_path_def)
  have "import_module plugin_world (parser_module_path [] p) =
          Some (demo_module (parser_module_path [] p))"
    using assms other by (simp add: plugin_world_def demo_import_def)
  then show ?thesis
    by (simp add: parser_module_def plugin_fields path)
qed

lemma plugin_sysjobs_module: "parser_module plugin_world ''sysjobs'' = Inr sysjobs_module"
  by (simp add: parser_module_def plugin_fields parser_module_path_def parser_mod_shortname_def)

lemma plugin_about_loop:
  "set ps \<subseteq> set builtin_parsers \<Longrightarrow>
   about_loop plugin_world (ps @ [''sysjobs'']) d acc =
     Inr (acc @ map demo_entry ps @ [sysjobs_entry])"
proof (induction ps arbitrary: d acc)
  case Nil
  show ?case
    by (simp add: plugin_sysjobs_module sysjobs_module_def sysjobs_entry_def
        parser_argument_def)
next
  case (Cons p ps)
  then show ?case
    by (simp add: plugin_parser_module demo_module_def demo_entry_def)
qed

lemma plugin_about_jc:
  "about_jc plugin_world = Inr (map demo_entry builtin_parsers @ [sysjobs_entry])"
  by (simp add: about_jc_def plugin_parsers plugin_about_loop)

lemma plugin_magic_dict:
  "build_magic_dict (map demo_entry builtin_parsers @ [sysjobs_entry]) mc =
     (if mc = ''systemctl list!jobs'' then Some ''--sysjobs''
      else build_magic_dict (map demo_entry builtin_parsers) mc)"
  by (simp add: build_magic_dict_snoc declared_phrases_def sysjobs_entry_def sysjobs_info_def)

text \<open>
  C2. The specification wants a full two-word command to resolve to the converter
  registered for the two-word phrase, for every converter. The lookup does try the
  two-token phrase first, but on the tokens of
  \<^verbatim>\<open>' '.join(map(shlex.quote, args[1:])).split()\<close>, which puts quotes around every
  word that has a character outside the safe set of \<^verbatim>\<open>shlex.quote\<close>: for a phrase
  with such a word the two-token lookup cannot match. The code evaluated at
  \<^verbatim>\<open>jc systemctl list!jobs\<close> in the installation with the local converter: the
  table maps \<^verbatim>\<open>systemctl list!jobs\<close> to \<^verbatim>\<open>--sysjobs\<close> and \<^verbatim>\<open>systemctl\<close> to
  \<^verbatim>\<open>--systemctl\<close>, the second token of the user command carries the quotes, and the
  converter returned is the one-word one.
\<close>

theorem two_word_plugin_phrase_resolves_to_one_word:
  "about_jc plugin_world = Inr (map demo_entry builtin_parsers @ [sysjobs_entry]) \<and>
   build_magic_dict (map demo_entry builtin_parsers @ [sysjobs_entry]) ''systemctl list!jobs'' =
     Some ''--sysjobs'' \<and>
   build_magic_dict (map demo_entry builtin_parsers @ [sysjobs_entry]) ''systemctl'' =
     Some ''--systemctl'' \<and>
   magic_parser plugin_world [''jc'', ''systemctl'', ''list!jobs''] =
     Inr (True, Some [''systemctl'', CHR 0x27 # ''list!jobs'' @ [CHR 0x27]],
          Some ''--systemctl'', [])"
proof -
  have tok: "retokenize [''jc'', ''systemctl'', ''list!jobs''] =
      [''systemctl'', CHR 0x27 # ''list!jobs'' @ [CHR 0x27]]"
    by (simp add: retokenize_def shlex_quote_def shlex_safe_def split_ws_def isspace_def)
  have "magic_parser plugin_world [''jc'', ''systemctl'', ''list!jobs''] =
     Inr (True, Some [''systemctl'', CHR 0x27 # ''list!jobs'' @ [CHR 0x27]],
          Some ''--systemctl'', [])"
    by (simp add: magic_parser_def tok startswith_def plugin_about_jc find_parser_def
        plugin_magic_dict demo_magic_dict truthy_def)
  then show ?thesis
    by (simp add: plugin_about_jc plugin_magic_dict demo_magic_dict)
qed

text \<open>
  C4. The specification wants every argument to survive as one intact token. The
  code does otherwise: an argument with a space is quoted by
  \<^verbatim>\<open>shlex.quote\<close> and then cut at the space by \<^verbatim>\<open>str.split\<close>, so it reaches the
  user command as two tokens that carry the quote characters. The code evaluated at
  \<^verbatim>\<open>jc echo 'hello world'\<close>:
\<close>

theorem retokenize_splits_quoted_argument:
  "retokenize [''jc'', ''echo'', ''hello world''] =
     [''echo'', CHR 0x27 # ''hello'', ''world'' @ [CHR 0x27]] \<and>
   magic_parser demo_world [''jc'', ''echo'', ''hello world''] =
     Inr (False, Some [''echo'', CHR 0x27 # ''hello'', ''world'' @ [CHR 0x27]], None, [])"
proof -
  have retok: "retokenize [''jc'', ''echo'', ''hello world''] =
      [''echo'', CHR 0x27 # ''hello'', ''world'' @ [CHR 0x27]]"
    by (simp add: retokenize_def shlex_quote_def shlex_safe_def split_ws_def isspace_def)
  moreover have "magic_parser demo_world [''jc'', ''echo'', ''hello world''] =
      Inr (False, Some [''echo'', CHR 0x27 # ''hello'', ''world'' @ [CHR 0x27]], None, [])"
    by (simp add: magic_parser_def retok startswith_def demo_about_jc find_parser_def
        demo_magic_dict truthy_def)
  ultimately show ?thesis by simp
qed

subsection \<open>The dispatcher\<close>

lemma retokenize_h_a: "retokenize [''jc'', ''-h'', ''-a''] = [''-h'', ''-a'']"
  by (simp add: retokenize_def shlex_quote_def shlex_safe_def split_ws_def isspace_def)

lemma magic_parser_h_a: "magic_parser W [''jc'', ''-h'', ''-a''] = Inr (False, None, None, [])"
  by (simp add: magic_parser_def retokenize_h_a startswith_def)

lemma main_h_a:
  "main W [''jc'', ''-h'', ''-a''] =
     (case about_jc W of
        Inl e \<Rightarrow> ([], e)
      | Inr parser_list \<Rightarrow>
          print_json W (AboutData parser_list) False (\<not> pygments_installed W) 0)"
  by (simp add: main_def magic_parser_h_a main_magic_def argv_options_def startswith_def
      main_dispatch_def split: sum.splits prod.splits)

lemma print_json_no_help:
  "\<not> list_ex printed_help (fst (print_json W (AboutData l) pretty m code))"
  by (auto simp add: print_json_def json_out_def list_ex_iff printed_help_def and_then_def
      split: prod.splits sum.splits if_splits)

text \<open>
  C5 (corrected). For \<^verbatim>\<open>jc -h -a\<close>, \<open>magic_parser\<close> returns non-magic, and \<open>main\<close>
  takes the about branch, which is tested before the help branch: it prints the about
  payload and exits with 0 (or ends with what \<open>about_jc\<close> or the formatter raised), and
  it prints no help text, in every world.
\<close>

theorem help_and_about_prints_about:
  "magic_parser W [''jc'', ''-h'', ''-a''] = Inr (False, None, None, []) \<and>
   main W [''jc'', ''-h'', ''-a''] =
     (case about_jc W of
        Inl e \<Rightarrow> ([], e)
      | Inr parser_list \<Rightarrow>
          print_json W (AboutData parser_list) False (\<not> pygments_installed W) 0) \<and>
   \<not> list_ex printed_help (fst (main W [''jc'', ''-h'', ''-a'']))"
  by (simp add: magic_parser_h_a main_h_a print_json_no_help split: sum.splits)

text \<open>Against the help-first reading of C5: in the example installation the run prints
  the about payload and no help.\<close>

theorem help_and_about_demo:
  "main demo_world [''jc'', ''-h'', ''-a''] =
     ([Stdout (JsonText (AboutData (map demo_entry builtin_parsers)) False None)],
      SystemExit 0) \<and>
   list_ex printed_about (fst (main demo_world [''jc'', ''-h'', ''-a''])) \<and>
   \<not> list_ex printed_help (fst (main demo_world [''jc'', ''-h'', ''-a'']))"
  by (simp add: main_h_a demo_about_jc print_json_def json_out_def demo_fields
      printed_about_def printed_help_def)

text \<open>
  C8. The specification wants only a \<^verbatim>\<open>--name\<close> flag of a registered converter to
  select a converter. The code does otherwise: the scan tests \<^verbatim>\<open>arg[2:]\<close> against the catalogue
  without testing that \<^verbatim>\<open>arg\<close> starts with \<^verbatim>\<open>--\<close>. In \<^verbatim>\<open>jc -- uptime\<close> the
  argument \<^verbatim>\<open>uptime\<close> is no flag, but \<^verbatim>\<open>uptime[2:]\<close> is \<^verbatim>\<open>time\<close>, a name of the
  catalogue: the scan selects \<^verbatim>\<open>uptime\<close>, \<open>parser_module\<close> loads
  \<^verbatim>\<open>jc.parsers.uptime\<close>, and the run converts standard input with it and exits with
  0 instead of reporting missing arguments.
\<close>

theorem scan_selects_argument_without_dashes:
  "\<not> startswith ''uptime'' ''--'' \<and>
   find_parser_arg [] [''jc'', ''--'', ''uptime''] = Some ''uptime'' \<and>
   main demo_world [''jc'', ''--'', ''uptime''] =
     ([Stdout (JsonText (ParsedData (''jc.parsers.uptime'', ''up 3 days'')) False None)],
      SystemExit 0)"
proof -
  have mp: "magic_parser demo_world [''jc'', ''--'', ''uptime''] = Inr (False, None, None, [])"
    by (simp add: magic_parser_def startswith_def)
  have fp: "find_parser_arg [] [''jc'', ''--'', ''uptime''] = Some ''uptime''"
    by (simp add: find_parser_arg_def parsers_def parser_shortname_def builtin_parsers_def)
  have up: "''uptime'' \<in> set builtin_parsers"
    by (simp add: builtin_parsers_def)
  have path: "parser_module_path [] ''uptime'' = ''jc.parsers.uptime''"
    by (simp add: parser_module_path_def parser_mod_shortname_def)
  have "main demo_world [''jc'', ''--'', ''uptime''] =
     ([Stdout (JsonText (ParsedData (''jc.parsers.uptime'', ''up 3 days'')) False None)],
      SystemExit 0)"
    by (simp add: main_def mp main_magic_def argv_options_def startswith_def
      main_dispatch_def demo_fields truthy_def fp demo_parser_module [OF up] path
      main_parse_def demo_module_def print_json_def json_out_def combined_exit_code_def)
  with fp show ?thesis by (simp add: startswith_def)
qed

end
